theory Spec2Isabelle
  imports Main "HOL-Library.AList"
begin

section \<open>Strings\<close>

text \<open>
  A Python \<open>str\<close> is modelled as a \<open>char list\<close> whose characters are the code points
  0..255. \<open>str.lower()\<close> maps \<open>A..Z\<close> to \<open>a..z\<close> and, in that range, the capital letters
  0xC0..0xDE (without the multiplication sign 0xD7) to the letter 32 places further.
\<close>

definition lower_char :: "char \<Rightarrow> char" where
  "lower_char c =
     (let n = (of_char c :: nat)
      in if (65 \<le> n \<and> n \<le> 90) \<or> (192 \<le> n \<and> n \<le> 222 \<and> n \<noteq> 215)
         then char_of (n + 32) else c)"

definition lower :: "string \<Rightarrow> string" where
  "lower s = map lower_char s"

text \<open>\<open>s.startswith(p)\<close>\<close>

fun startswith :: "string \<Rightarrow> string \<Rightarrow> bool" where
  "startswith s [] = True"
| "startswith [] (p # ps) = False"
| "startswith (c # cs) (p # ps) = (c = p \<and> startswith cs ps)"

text \<open>\<open>sub in s\<close> on strings: \<open>sub\<close> occurs in \<open>s\<close> as a contiguous block.\<close>

fun contains :: "string \<Rightarrow> string \<Rightarrow> bool" where
  "contains [] sub = (sub = [])"
| "contains (c # cs) sub = (startswith (c # cs) sub \<or> contains cs sub)"

text \<open>\<open>sep.join(parts)\<close>\<close>

fun join :: "string \<Rightarrow> string list \<Rightarrow> string" where
  "join sep [] = []"
| "join sep [p] = p"
| "join sep (p # q # ps) = p @ sep @ join sep (q # ps)"

section \<open>Planner (planner.py)\<close>

datatype complexity = Simple | Moderate | Complex

datatype strategy = Sequential | Parallel | Hierarchical

definition complex_keywords :: "string list" where
  "complex_keywords = [''implement'', ''refactor'', ''optimize'', ''migrate'', ''deploy'']"

definition simple_keywords :: "string list" where
  "simple_keywords = [''fix'', ''add'', ''update'', ''change'', ''rename'']"

definition analyze_complexity :: "string \<Rightarrow> complexity" where
  "analyze_complexity request =
     (let request_lower = lower request
      in if list_ex (\<lambda>keyword. contains request_lower keyword) complex_keywords then Complex
         else if list_ex (\<lambda>keyword. contains request_lower keyword) simple_keywords then Simple
         else if length request > 200 then Complex
         else Moderate)"

text \<open>
  \<open>_analyze_complexity\<close> returns one of three strings, so the default of
  \<open>strategy_map.get\<close> is never taken and the map is total on \<open>complexity\<close>.
\<close>

fun select_strategy :: "complexity \<Rightarrow> strategy" where
  "select_strategy Simple = Sequential"
| "select_strategy Moderate = Parallel"
| "select_strategy Complex = Hierarchical"

definition sequential_planning :: "string \<Rightarrow> string list" where
  "sequential_planning request =
     (if contains (lower request) ''test'' then
        [''Analyze existing test coverage'', ''Write unit tests'', ''Run tests and verify'']
      else if contains (lower request) ''api'' then
        [''Design API endpoints'', ''Implement API handlers'', ''Add API documentation'']
      else if contains (lower request) ''bug'' \<or> contains (lower request) ''fix'' then
        [''Identify the bug location'', ''Analyze root cause'', ''Implement fix'',
         ''Verify fix works'']
      else
        [''Understand requirements'', ''Implement solution'', ''Test implementation''])"

definition parallel_planning :: "string \<Rightarrow> string list" where
  "parallel_planning request =
     map (\<lambda>task. if contains (lower task) ''test'' \<or> contains (lower task) ''document''
                  then ''[Parallel] '' @ task else task)
         (sequential_planning request)"

definition high_level_tasks :: "string list" where
  "high_level_tasks =
     [''1. Analyze requirements'', ''2. Design solution architecture'',
      ''3. Implement core functionality'', ''4. Add error handling and edge cases'',
      ''5. Write tests'', ''6. Document implementation'']"

definition hierarchical_planning :: "string \<Rightarrow> string list" where
  "hierarchical_planning request =
     concat (map (\<lambda>task.
        task #
        (if contains task ''Implement'' then
           [''  - Set up project structure'', ''  - Implement main logic'',
            ''  - Add helper functions'']
         else if contains (lower task) ''test'' then
           [''  - Write unit tests'', ''  - Write integration tests'']
         else [])) high_level_tasks)"

fun run_strategy :: "strategy \<Rightarrow> string \<Rightarrow> string list" where
  "run_strategy Sequential request = sequential_planning request"
| "run_strategy Parallel request = parallel_planning request"
| "run_strategy Hierarchical request = hierarchical_planning request"

text \<open>
  \<open>_identify_dependencies\<close>: the dictionary is an association list in insertion order;
  a task without the \<open>[Parallel]\<close> mark at an index above 0 depends on the nearest
  earlier task without it.
\<close>

definition nearest_unmarked :: "string list \<Rightarrow> string list" where
  "nearest_unmarked earlier =
     (case filter (\<lambda>t. \<not> startswith t ''[Parallel]'') (rev earlier) of
        [] \<Rightarrow> [] | t # _ \<Rightarrow> [t])"

fun dependencies_from :: "string list \<Rightarrow> string list \<Rightarrow> (string \<times> string list) list
    \<Rightarrow> (string \<times> string list) list" where
  "dependencies_from earlier [] deps = deps"
| "dependencies_from earlier (task # rest) deps =
     (let ds = (if earlier \<noteq> [] \<and> \<not> startswith task ''[Parallel]''
                then nearest_unmarked earlier else [])
      in dependencies_from (earlier @ [task]) rest
           (if ds \<noteq> [] then AList.update task ds deps else deps))"

definition identify_dependencies :: "string list \<Rightarrow> (string \<times> string list) list" where
  "identify_dependencies tasks = dependencies_from [] tasks []"

record task_plan =
  tasks :: "string list"
  dependencies :: "(string \<times> string list) list"
  plan_complexity :: complexity

definition create_plan :: "string \<Rightarrow> task_plan" where
  "create_plan request =
     (let complexity = analyze_complexity request;
          strategy = select_strategy complexity;
          tasks = run_strategy strategy request
      in \<lparr>tasks = tasks, dependencies = identify_dependencies tasks,
          plan_complexity = complexity\<rparr>)"

text \<open>The classification as the specification words it, keyword by keyword.\<close>

definition classifyComplexity_spec :: "string \<Rightarrow> complexity" where
  "classifyComplexity_spec request =
     (let l = lower request
      in if contains l ''implement'' \<or> contains l ''refactor'' \<or> contains l ''optimize''
            \<or> contains l ''migrate'' \<or> contains l ''deploy'' then Complex
         else if contains l ''fix'' \<or> contains l ''add'' \<or> contains l ''update''
            \<or> contains l ''change'' \<or> contains l ''rename'' then Simple
         else if length request > 200 then Complex
         else Moderate)"

section \<open>Results and context (executor.py)\<close>

datatype pyval = PStr string | PInt int

type_synonym ctx = "string \<rightharpoonup> pyval"

record code_change =
  cc_file :: string
  cc_action :: string
  cc_lines :: nat

record artifacts =
  files_created :: "string list option"
  files_modified :: "string list option"
  commands_executed :: "string list option"
  errors :: "string list option"

text \<open>
  A handler's result dictionary: a key that may be absent is an \<open>option\<close>. Only the keys
  the orchestrator reads are kept.
\<close>

record task_result =
  success :: bool
  summary :: "string option"
  code_changes :: "code_change list option"
  result_artifacts :: "artifacts option"
  result_context :: "ctx option"
  error :: "string option"
  task :: "string option"

text \<open>
  The four handlers that touch the file system or start a process are operations of the
  environment: from a task, the context and the state \<open>'w\<close> of the outside world they give
  either a raised exception (\<open>Inl\<close>, its message) or a result, and the world after.
  \<open>now\<close> is \<open>datetime.now().isoformat()\<close>.
\<close>

record 'w env =
  now :: "'w \<Rightarrow> string"
  execute_test_task :: "string \<Rightarrow> ctx \<Rightarrow> 'w \<Rightarrow> (string + task_result) \<times> 'w"
  execute_implementation_task :: "string \<Rightarrow> ctx \<Rightarrow> 'w \<Rightarrow> (string + task_result) \<times> 'w"
  execute_analysis_task :: "string \<Rightarrow> ctx \<Rightarrow> 'w \<Rightarrow> (string + task_result) \<times> 'w"
  execute_debug_task :: "string \<Rightarrow> ctx \<Rightarrow> 'w \<Rightarrow> (string + task_result) \<times> 'w"

definition execute_generic_task :: "string \<Rightarrow> ctx \<Rightarrow> 'w \<Rightarrow> (string + task_result) \<times> 'w" where
  "execute_generic_task t c w =
     (Inr \<lparr>success = True, summary = Some (''Completed: '' @ t), code_changes = None,
           result_artifacts = None, result_context = Some [''last_task'' \<mapsto> PStr t],
           error = None, task = None\<rparr>, w)"

text \<open>The \<open>except Exception\<close> clause of \<open>execute_task\<close>.\<close>

definition failure_result :: "string \<Rightarrow> string \<Rightarrow> task_result" where
  "failure_result e t =
     \<lparr>success = False, summary = None, code_changes = None, result_artifacts = None,
      result_context = None, error = Some e, task = Some t\<rparr>"

definition catch_task :: "string \<Rightarrow> (string + task_result) \<times> 'w \<Rightarrow> task_result \<times> 'w" where
  "catch_task t out =
     (case out of (Inl e, w') \<Rightarrow> (failure_result e t, w') | (Inr r, w') \<Rightarrow> (r, w'))"

definition execute_task :: "'w env \<Rightarrow> string \<Rightarrow> ctx \<Rightarrow> 'w \<Rightarrow> task_result \<times> 'w" where
  "execute_task E t c w =
     catch_task t
       (if contains (lower t) ''test'' then execute_test_task E t c w
        else if contains (lower t) ''implement'' \<or> contains (lower t) ''write'' then
          execute_implementation_task E t c w
        else if contains (lower t) ''analyze'' then execute_analysis_task E t c w
        else if contains (lower t) ''fix'' \<or> contains (lower t) ''debug'' then
          execute_debug_task E t c w
        else execute_generic_task t c w)"

text \<open>
  An environment for evaluation: its world is the list of handler calls made so far, and
  every handler succeeds with a summary that names it.
\<close>

definition named_result :: "string \<Rightarrow> task_result" where
  "named_result n =
     \<lparr>success = True, summary = Some n, code_changes = None, result_artifacts = None,
      result_context = None, error = None, task = None\<rparr>"

definition trace_env :: "(string \<times> string) list env" where
  "trace_env =
     \<lparr>now = (\<lambda>w. ''t''),
      execute_test_task = (\<lambda>t c w. (Inr (named_result ''test''), w @ [(''test'', t)])),
      execute_implementation_task =
        (\<lambda>t c w. (Inr (named_result ''implementation''), w @ [(''implementation'', t)])),
      execute_analysis_task = (\<lambda>t c w. (Inr (named_result ''analysis''), w @ [(''analysis'', t)])),
      execute_debug_task = (\<lambda>t c w. (Inr (named_result ''debug''), w @ [(''debug'', t)]))\<rparr>"

text \<open>The same environment with every handler raising.\<close>

definition raising_env :: "(string \<times> string) list env" where
  "raising_env =
     \<lparr>now = (\<lambda>w. ''t''),
      execute_test_task = (\<lambda>t c w. (Inl ''test failed'', w @ [(''test'', t)])),
      execute_implementation_task =
        (\<lambda>t c w. (Inl ''implementation failed'', w @ [(''implementation'', t)])),
      execute_analysis_task = (\<lambda>t c w. (Inl ''analysis failed'', w @ [(''analysis'', t)])),
      execute_debug_task = (\<lambda>t c w. (Inl ''debug failed'', w @ [(''debug'', t)]))\<rparr>"

section \<open>Memory (memory.py)\<close>

record interaction =
  timestamp :: string
  role :: string
  content :: string
  metadata :: "(string \<times> pyval) list"

text \<open>The values of \<open>long_term\<close>: each is a dictionary of two strings.\<close>

datatype fact =
    FileFact string string
  | DefinitionFact string string
  | ErrorFact string string

text \<open>
  \<open>short_term\<close> is a \<open>deque\<close> with \<open>maxlen\<close>, kept as its list and its bound. \<open>long_term\<close> is
  a dictionary in insertion order.
\<close>

record memory_manager =
  short_term :: "interaction list"
  maxlen :: nat
  long_term :: "(string \<times> fact) list"
  interactions :: "interaction list"
  persistence_path :: "string option"

text \<open>\<open>deque.append\<close>: the item goes in at the right, and a deque over its bound drops its
  leftmost item.\<close>

definition deque_append :: "nat \<Rightarrow> 'a list \<Rightarrow> 'a \<Rightarrow> 'a list" where
  "deque_append n xs x = (let ys = xs @ [x] in if length ys > n then tl ys else ys)"

text \<open>The slice \<open>xs[-n:]\<close> for an integer \<open>n\<close>; \<open>xs[-0:]\<close> is the whole list.\<close>

definition slice_last :: "int \<Rightarrow> 'a list \<Rightarrow> 'a list" where
  "slice_last n xs = (if n > 0 then drop (length xs - nat n) xs else drop (nat (- n)) xs)"

text \<open>\<open>str(n)\<close> for a natural number.\<close>

fun str_nat :: "nat \<Rightarrow> string" where
  "str_nat n =
     (if n < 10 then [''0123456789'' ! n]
      else str_nat (n div 10) @ [''0123456789'' ! (n mod 10)])"

declare str_nat.simps [simp del]

subsection \<open>The three regular expressions\<close>

text \<open>The classes \<open>\w\<close> and \<open>\s\<close> of a \<open>str\<close> pattern, on the code points 0..255.\<close>

definition is_word :: "char \<Rightarrow> bool" where
  "is_word c =
     (let n = (of_char c :: nat)
      in (48 \<le> n \<and> n \<le> 57) \<or> (65 \<le> n \<and> n \<le> 90) \<or> n = 95 \<or> (97 \<le> n \<and> n \<le> 122)
         \<or> n = 170 \<or> n = 178 \<or> n = 179 \<or> n = 181 \<or> n = 185 \<or> n = 186
         \<or> n = 188 \<or> n = 189 \<or> n = 190
         \<or> (192 \<le> n \<and> n \<le> 214) \<or> (216 \<le> n \<and> n \<le> 246) \<or> 248 \<le> n)"

definition is_space :: "char \<Rightarrow> bool" where
  "is_space c =
     (let n = (of_char c :: nat)
      in (9 \<le> n \<and> n \<le> 13) \<or> (28 \<le> n \<and> n \<le> 32) \<or> n = 133 \<or> n = 160)"

definition backslash :: char where
  "backslash = char_of (92 :: nat)"

text \<open>The classes \<open>[./\\]\<close> and \<open>[\w./\\-]\<close>.\<close>

definition sep_char :: "char \<Rightarrow> bool" where
  "sep_char c = (c = CHR ''.'' \<or> c = CHR ''/'' \<or> c = backslash)"

definition path_char :: "char \<Rightarrow> bool" where
  "path_char c = (is_word c \<or> c = CHR ''.'' \<or> c = CHR ''/'' \<or> c = backslash \<or> c = CHR ''-'')"

text \<open>
  A matcher gives the length of the match of its pattern at the start of the string, the
  way the backtracking engine finds it: a greedy repetition first takes one more
  character and gives it back when the rest of the pattern fails.
  \<open>dot_word\<close> is \<open>\.\w+\<close>, \<open>path_chars_then\<close> is \<open>[\w./\\-]*\.\w+\<close>, \<open>path_body\<close> is
  \<open>[\w./\\-]+\.\w+\<close> and \<open>match_path\<close> the whole \<open>[./\\]?[\w./\\-]+\.\w+\<close>.
\<close>

definition dot_word :: "string \<Rightarrow> nat option" where
  "dot_word s =
     (case s of
        c # d # ds \<Rightarrow>
          if c = CHR ''.'' \<and> is_word d then Some (Suc (length (takeWhile is_word (d # ds))))
          else None
      | _ \<Rightarrow> None)"

fun path_chars_then :: "string \<Rightarrow> nat option" where
  "path_chars_then [] = dot_word []"
| "path_chars_then (c # cs) =
     (if path_char c then
        (case path_chars_then cs of Some n \<Rightarrow> Some (Suc n) | None \<Rightarrow> dot_word (c # cs))
      else dot_word (c # cs))"

definition path_body :: "string \<Rightarrow> nat option" where
  "path_body s =
     (case s of
        [] \<Rightarrow> None
      | c # cs \<Rightarrow> if path_char c then map_option Suc (path_chars_then cs) else None)"

definition match_path :: "string \<Rightarrow> (string \<times> nat) option" where
  "match_path s =
     map_option (\<lambda>n. (take n s, n))
       (case s of
          [] \<Rightarrow> path_body []
        | c # cs \<Rightarrow>
            if sep_char c then
              (case path_body cs of Some n \<Rightarrow> Some (Suc n) | None \<Rightarrow> path_body (c # cs))
            else path_body (c # cs))"

text \<open>
  \<open>word_group\<close> is \<open>(\w+)\<close>, \<open>spaces_then_word\<close> is \<open>\s*(\w+)\<close>, and \<open>match_keyword_name kw\<close>
  is \<open>kw\s+(\w+)\<close>: the text of the group and the length of the whole match.
\<close>

definition word_group :: "string \<Rightarrow> (string \<times> nat) option" where
  "word_group s = (let g = takeWhile is_word s in if g = [] then None else Some (g, length g))"

fun spaces_then_word :: "string \<Rightarrow> (string \<times> nat) option" where
  "spaces_then_word [] = word_group []"
| "spaces_then_word (c # cs) =
     (if is_space c then
        (case spaces_then_word cs of Some (g, n) \<Rightarrow> Some (g, Suc n) | None \<Rightarrow> word_group (c # cs))
      else word_group (c # cs))"

definition match_keyword_name :: "string \<Rightarrow> string \<Rightarrow> (string \<times> nat) option" where
  "match_keyword_name kw s =
     (if startswith s kw then
        (case drop (length kw) s of
           [] \<Rightarrow> None
         | c # cs \<Rightarrow>
             if is_space c then
               map_option (\<lambda>(g, n). (g, length kw + Suc n)) (spaces_then_word cs)
             else None)
      else None)"

text \<open>
  \<open>re.findall\<close>: the matches from left to right, none overlapping another. The number is
  how many characters of the last match are still to be passed over.
\<close>

fun findall :: "(string \<Rightarrow> ('a \<times> nat) option) \<Rightarrow> nat \<Rightarrow> string \<Rightarrow> 'a list" where
  "findall m k [] = []"
| "findall m (Suc k) (c # cs) = findall m k cs"
| "findall m 0 (c # cs) =
     (case m (c # cs) of
        Some (g, n) \<Rightarrow> g # findall m (n - 1) cs
      | None \<Rightarrow> findall m 0 cs)"

declare findall.simps [simp del]

subsection \<open>Adding an interaction\<close>

definition extract_files :: "interaction \<Rightarrow> (string \<times> fact) list \<Rightarrow> (string \<times> fact) list" where
  "extract_files i lt =
     (if contains (content i) ''/'' \<or> contains (content i) [backslash] then
        fold (\<lambda>path. AList.update (''file_'' @ path)
                        (FileFact (timestamp i) (take 100 (content i))))
             (findall match_path 0 (content i)) lt
      else lt)"

definition extract_definitions :: "interaction \<Rightarrow> (string \<times> fact) list \<Rightarrow> (string \<times> fact) list" where
  "extract_definitions i lt =
     (if contains (content i) ''def '' \<or> contains (content i) ''class '' then
        fold (\<lambda>cls. AList.update (''class_'' @ cls) (DefinitionFact (timestamp i) ''class''))
             (findall (match_keyword_name ''class'') 0 (content i))
          (fold (\<lambda>func. AList.update (''function_'' @ func)
                          (DefinitionFact (timestamp i) ''function''))
                (findall (match_keyword_name ''def'') 0 (content i)) lt)
      else lt)"

definition error_count :: "(string \<times> fact) list \<Rightarrow> nat" where
  "error_count lt = length (filter (\<lambda>k. startswith k ''error_'') (map fst lt))"

definition extract_errors :: "interaction \<Rightarrow> (string \<times> fact) list \<Rightarrow> (string \<times> fact) list" where
  "extract_errors i lt =
     (if contains (lower (content i)) ''error'' \<or> contains (lower (content i)) ''exception'' then
        AList.update (''error_'' @ str_nat (error_count lt))
          (ErrorFact (timestamp i) (take 200 (content i))) lt
      else lt)"

definition extract_to_long_term :: "interaction \<Rightarrow> (string \<times> fact) list \<Rightarrow> (string \<times> fact) list" where
  "extract_to_long_term i lt = extract_errors i (extract_definitions i (extract_files i lt))"

text \<open>The first argument is the time \<open>datetime.now().isoformat()\<close> gives at the call.\<close>

definition add_interaction ::
    "string \<Rightarrow> string \<Rightarrow> string \<Rightarrow> (string \<times> pyval) list \<Rightarrow> memory_manager \<Rightarrow> memory_manager" where
  "add_interaction ts r c md m =
     (let i = \<lparr>timestamp = ts, role = r, content = c, metadata = md\<rparr>
      in m\<lparr>interactions := interactions m @ [i],
           short_term := deque_append (maxlen m) (short_term m) i,
           long_term := extract_to_long_term i (long_term m)\<rparr>)"

definition get_recent_context :: "int \<Rightarrow> memory_manager \<Rightarrow> interaction list" where
  "get_recent_context n m = slice_last n (short_term m)"

subsection \<open>Saving and loading\<close>

text \<open>
  The file system is a map from paths to files. A file written by \<open>save_memory\<close> holds the
  pickled dictionary, which \<open>pickle.load\<close> gives back as it was; any other file makes
  \<open>pickle.load\<close> raise. Creating the directory and writing the file are taken to succeed.
\<close>

record memory_data =
  data_long_term :: "(string \<times> fact) list"
  data_interactions :: "interaction list"
  data_timestamp :: string

datatype stored_file = MemoryFile memory_data | OtherFile

type_synonym files = "string \<rightharpoonup> stored_file"

definition save_memory :: "string \<Rightarrow> memory_manager \<Rightarrow> files \<Rightarrow> files" where
  "save_memory ts m fs =
     (case persistence_path m of
        None \<Rightarrow> fs
      | Some p \<Rightarrow>
          fs(p \<mapsto> MemoryFile \<lparr>data_long_term = long_term m, data_interactions = interactions m,
                               data_timestamp = ts\<rparr>))"

definition load_memory :: "memory_manager \<Rightarrow> files \<Rightarrow> memory_manager" where
  "load_memory m fs =
     (case persistence_path m of
        None \<Rightarrow> m
      | Some p \<Rightarrow>
          (case fs p of
             None \<Rightarrow> m
           | Some OtherFile \<Rightarrow> m
           | Some (MemoryFile d) \<Rightarrow>
               m\<lparr>long_term := data_long_term d,
                 interactions := data_interactions d,
                 short_term :=
                   fold (\<lambda>i st. deque_append (maxlen m) st i)
                     (slice_last (int (maxlen m)) (data_interactions d)) (short_term m)\<rparr>))"

text \<open>
  \<open>MemoryManager(max_short_term, persistence_path)\<close>: an empty string is no path, and a
  negative bound is refused by \<open>deque\<close>, so the bound is a natural number.
\<close>

definition new_memory :: "nat \<Rightarrow> string option \<Rightarrow> files \<Rightarrow> memory_manager" where
  "new_memory max_short_term path fs =
     (let m = \<lparr>short_term = [], maxlen = max_short_term, long_term = [], interactions = [],
               persistence_path = (if path = Some [] then None else path)\<rparr>
      in load_memory m fs)"

definition clear :: "memory_manager \<Rightarrow> memory_manager" where
  "clear m = m\<lparr>short_term := [], long_term := [], interactions := []\<rparr>"

text \<open>A run of \<open>add_interaction\<close> calls, each with its time, role, content and metadata.\<close>

definition make_interaction :: "string \<times> string \<times> string \<times> (string \<times> pyval) list \<Rightarrow> interaction" where
  "make_interaction a =
     (case a of (ts, r, c, md) \<Rightarrow> \<lparr>timestamp = ts, role = r, content = c, metadata = md\<rparr>)"

fun add_interactions ::
    "(string \<times> string \<times> string \<times> (string \<times> pyval) list) list \<Rightarrow> memory_manager \<Rightarrow> memory_manager" where
  "add_interactions [] m = m"
| "add_interactions ((ts, r, c, md) # rest) m = add_interactions rest (add_interaction ts r c md m)"

section \<open>Orchestrator (core.py)\<close>

text \<open>
  Task lists that the code shares between names live in a store of list objects:
  \<open>pending_tasks\<close> holds the address of a list, and so does the loop over \<open>plan.tasks\<close>.
  \<open>completed_tasks\<close> is a list of the session that nothing else changes; it is kept by
  value, and a response carries it as it is when the call returns.
\<close>

record agent_state =
  current_task :: "string option"
  completed_tasks :: "string list"
  pending_tasks :: nat
  state_context :: ctx

record 'w agent =
  state :: agent_state
  memory :: memory_manager
  heap :: "nat \<Rightarrow> string list"
  next_ref :: nat
  world :: 'w

record response_body =
  response_summary :: string
  response_code_changes :: "code_change list"
  total_tasks :: nat
  successful_tasks :: nat

record collected_artifacts =
  all_files_created :: "string list"
  all_files_modified :: "string list"
  all_commands_executed :: "string list"
  all_errors :: "string list"

text \<open>The dictionary \<open>process_request\<close> returns: the one of the \<open>try\<close> block or the one
  of the \<open>except\<close> clause.\<close>

datatype response =
    Succeeded response_body "string list" collected_artifacts
  | Failed string "string list"

fun tasks_completed :: "response \<Rightarrow> string list" where
  "tasks_completed (Succeeded body done arts) = done"
| "tasks_completed (Failed e done) = done"

definition newline :: char where
  "newline = char_of (10 :: nat)"

definition summary_text :: "task_result \<Rightarrow> string" where
  "summary_text result = (case summary result of None \<Rightarrow> ''Task completed'' | Some s \<Rightarrow> s)"

definition changes_of :: "task_result \<Rightarrow> code_change list" where
  "changes_of result = (case code_changes result of None \<Rightarrow> [] | Some cs \<Rightarrow> cs)"

text \<open>One round of the loop of \<open>_synthesize_response\<close> on the two accumulators.\<close>

definition synthesize_step ::
    "task_result \<Rightarrow> string list \<times> code_change list \<Rightarrow> string list \<times> code_change list" where
  "synthesize_step result acc =
     (case acc of (summary_parts, changes) \<Rightarrow>
        if success result then
          (summary_parts @ [summary_text result],
           (case code_changes result of None \<Rightarrow> changes | Some cs \<Rightarrow> changes @ cs))
        else (summary_parts, changes))"

definition synthesize_response :: "task_result list \<Rightarrow> response_body" where
  "synthesize_response results =
     (case fold synthesize_step results ([], []) of (summary_parts, changes) \<Rightarrow>
        \<lparr>response_summary = join [newline] summary_parts,
         response_code_changes = changes,
         total_tasks = length results,
         successful_tasks = length (filter success results)\<rparr>)"

definition listed :: "string list option \<Rightarrow> string list" where
  "listed xs = (case xs of None \<Rightarrow> [] | Some ys \<Rightarrow> ys)"

definition collect_step :: "task_result \<Rightarrow> collected_artifacts \<Rightarrow> collected_artifacts" where
  "collect_step result acc =
     (case result_artifacts result of
        None \<Rightarrow> acc
      | Some a \<Rightarrow>
          \<lparr>all_files_created = all_files_created acc @ listed (files_created a),
           all_files_modified = all_files_modified acc @ listed (files_modified a),
           all_commands_executed = all_commands_executed acc @ listed (commands_executed a),
           all_errors = all_errors acc @ listed (errors a)\<rparr>)"

definition collect_artifacts :: "task_result list \<Rightarrow> collected_artifacts" where
  "collect_artifacts results =
     fold collect_step results
       \<lparr>all_files_created = [], all_files_modified = [], all_commands_executed = [],
        all_errors = []\<rparr>"

definition log_interaction :: "'w env \<Rightarrow> string \<Rightarrow> string \<Rightarrow> 'w agent \<Rightarrow> 'w agent" where
  "log_interaction E r c A = A\<lparr>memory := add_interaction (now E (world A)) r c [] (memory A)\<rparr>"

text \<open>
  The body of the loop of \<open>process_request\<close> for the task \<open>t\<close>, with the executor \<open>ex\<close>
  that may raise. \<open>list.remove\<close> takes away the first item equal to \<open>t\<close> from the list
  object that \<open>pending_tasks\<close> points to and raises when there is none.
\<close>

definition loop_body ::
    "'w env \<Rightarrow> (string \<Rightarrow> ctx \<Rightarrow> 'w \<Rightarrow> (string + task_result) \<times> 'w) \<Rightarrow> string \<Rightarrow> 'w agent
     \<Rightarrow> (string + task_result) \<times> 'w agent" where
  "loop_body E ex t A =
     (let A1 = A\<lparr>state := (state A)\<lparr>current_task := Some t\<rparr>\<rparr>
      in case ex t (state_context (state A1)) (world A1) of
           (Inl e, w') \<Rightarrow> (Inl e, A1\<lparr>world := w'\<rparr>)
         | (Inr result, w') \<Rightarrow>
             (let A2 = A1\<lparr>world := w',
                         state := (state A1)\<lparr>completed_tasks := completed_tasks (state A1) @ [t]\<rparr>\<rparr>;
                  p = pending_tasks (state A2)
              in if t \<notin> set (heap A2 p) then (Inl ''list.remove(x): x not in list'', A2)
                 else
                   (let A3 = A2\<lparr>heap := (heap A2)(p := remove1 t (heap A2 p))\<rparr>;
                        A4 = A3\<lparr>state := (state A3)\<lparr>state_context :=
                               state_context (state A3)
                                 ++ (case result_context result of None \<Rightarrow> Map.empty | Some c \<Rightarrow> c)\<rparr>\<rparr>
                    in (Inr result, log_interaction E ''assistant'' (''Completed: '' @ t) A4))))"

text \<open>
  \<open>for task in plan.tasks\<close>: the iterator keeps the address \<open>p\<close> of the list and an index
  \<open>i\<close>, and at every round reads the list as it then is.
\<close>

function task_loop ::
    "'w env \<Rightarrow> (string \<Rightarrow> ctx \<Rightarrow> 'w \<Rightarrow> (string + task_result) \<times> 'w) \<Rightarrow> nat \<Rightarrow> nat
     \<Rightarrow> task_result list \<Rightarrow> 'w agent \<Rightarrow> (string + task_result list) \<times> 'w agent" where
  "task_loop E ex p i results A =
     (if i < length (heap A p) then
        (case loop_body E ex (heap A p ! i) A of
           (Inl e, A') \<Rightarrow> (Inl e, A')
         | (Inr result, A') \<Rightarrow> task_loop E ex p (Suc i) (results @ [result]) A')
      else (Inr results, A))"
  by pat_completeness auto
termination
  apply (relation "measure (\<lambda>(E, ex, p, i, results, A). length (heap A p) - i)")
   apply simp
  apply (auto simp: loop_body_def log_interaction_def Let_def length_remove1
      split: prod.splits sum.splits if_splits)
  done

declare task_loop.simps [simp del]

text \<open>
  \<open>process_request\<close> over a planner and an executor that may raise: the whole body is in
  the \<open>try\<close> block, so an exception of either ends the request with the \<open>except\<close>
  clause's dictionary. \<open>plan.tasks\<close> is a new list object, and
  \<open>self.state.pending_tasks = plan.tasks\<close> stores its address.
\<close>

definition process_request_with ::
    "'w env \<Rightarrow> (string \<Rightarrow> ctx \<Rightarrow> string + task_plan)
     \<Rightarrow> (string \<Rightarrow> ctx \<Rightarrow> 'w \<Rightarrow> (string + task_result) \<times> 'w)
     \<Rightarrow> string \<Rightarrow> 'w agent \<Rightarrow> response \<times> 'w agent" where
  "process_request_with E planner ex user_request A =
     (let A1 = log_interaction E ''user'' user_request A
      in case planner user_request (state_context (state A1)) of
           Inl e \<Rightarrow> (Failed e (completed_tasks (state A1)), A1)
         | Inr plan \<Rightarrow>
             (let p = next_ref A1;
                  A2 = A1\<lparr>heap := (heap A1)(p := tasks plan), next_ref := Suc p\<rparr>;
                  A3 = A2\<lparr>state := (state A2)\<lparr>pending_tasks := p\<rparr>\<rparr>
              in case task_loop E ex p 0 [] A3 of
                   (Inl e, A4) \<Rightarrow> (Failed e (completed_tasks (state A4)), A4)
                 | (Inr results, A4) \<Rightarrow>
                     (let body = synthesize_response results;
                          A5 = log_interaction E ''assistant'' (response_summary body) A4
                      in (Succeeded body (completed_tasks (state A5)) (collect_artifacts results),
                          A5))))"

text \<open>The agent's own planner and executor: neither raises.\<close>

definition process_request :: "'w env \<Rightarrow> string \<Rightarrow> 'w agent \<Rightarrow> response \<times> 'w agent" where
  "process_request E =
     process_request_with E (\<lambda>request c. Inr (create_plan request))
       (\<lambda>t c w. case execute_task E t c w of (result, w') \<Rightarrow> (Inr result, w'))"

text \<open>\<open>DevonAgent()\<close> in the world \<open>w\<close>, and \<open>reset\<close>; the new \<open>AgentState\<close> has its own empty
  lists.\<close>

definition new_agent :: "'w \<Rightarrow> 'w agent" where
  "new_agent w =
     \<lparr>state = \<lparr>current_task = None, completed_tasks = [], pending_tasks = 0,
               state_context = Map.empty\<rparr>,
      memory = new_memory 100 None Map.empty,
      heap = (\<lambda>r. []), next_ref = 1, world = w\<rparr>"

definition reset :: "'w agent \<Rightarrow> 'w agent" where
  "reset A =
     A\<lparr>state := \<lparr>current_task = None, completed_tasks = [], pending_tasks = next_ref A,
                 state_context = Map.empty\<rparr>,
       heap := (heap A)(next_ref A := []),
       next_ref := Suc (next_ref A),
       memory := clear (memory A)\<rparr>"

text \<open>A result that failed and yet carries a change record, as the implementation handler
  gives when the written file does not parse.\<close>

definition unparsed_result :: task_result where
  "unparsed_result =
     \<lparr>success = False, summary = Some ''Implemented src/implementation.py'',
      code_changes = Some [\<lparr>cc_file = ''src/implementation.py'', cc_action = ''created'',
                            cc_lines = 20\<rparr>],
      result_artifacts = None, result_context = None, error = None, task = None\<rparr>"

text \<open>Three runs for evaluation: a new agent given \<open>fix the bug in module.py\<close>, that agent
  given \<open>add a feature\<close> next, and a new agent given \<open>run the tests\<close> while every handler
  raises.\<close>

definition fix_request_run :: "response \<times> (string \<times> string) list agent" where
  "fix_request_run = process_request trace_env ''fix the bug in module.py'' (new_agent [])"

definition second_request_run :: "response \<times> (string \<times> string) list agent" where
  "second_request_run = process_request trace_env ''add a feature'' (snd fix_request_run)"

definition failing_tests_run :: "response \<times> (string \<times> string) list agent" where
  "failing_tests_run = process_request raising_env ''run the tests'' (new_agent [])"

section \<open>Properties of the planner and the dispatcher\<close>

lemma startswith_iff: "startswith s p \<longleftrightarrow> (\<exists>r. s = p @ r)"
  by (induction s p rule: startswith.induct) auto

lemma contains_iff: "contains s sub \<longleftrightarrow> (\<exists>pre post. s = pre @ sub @ post)"
proof (induction s)
  case Nil
  show ?case by auto
next
  case (Cons c cs)
  show ?case
  proof
    assume "contains (c # cs) sub"
    then consider "startswith (c # cs) sub" | "contains cs sub" by auto
    then show "\<exists>pre post. c # cs = pre @ sub @ post"
    proof cases
      case 1
      then obtain r where "c # cs = sub @ r" by (auto simp: startswith_iff)
      then have "c # cs = [] @ sub @ r" by simp
      then show ?thesis by blast
    next
      case 2
      then obtain pre post where "cs = pre @ sub @ post" using Cons.IH by blast
      then have "c # cs = (c # pre) @ sub @ post" by simp
      then show ?thesis by blast
    qed
  next
    assume "\<exists>pre post. c # cs = pre @ sub @ post"
    then obtain pre post where e: "c # cs = pre @ sub @ post" by blast
    show "contains (c # cs) sub"
    proof (cases pre)
      case Nil
      with e have "startswith (c # cs) sub" by (auto simp: startswith_iff)
      then show ?thesis by simp
    next
      case (Cons d pre')
      with e have "cs = pre' @ sub @ post" by simp
      then have "contains cs sub" using Cons.IH by blast
      then show ?thesis by simp
    qed
  qed
qed

lemma length_lower: "length (lower s) = length s"
  by (simp add: lower_def)

text \<open>
  C2: the complexity of a request is \<open>complex\<close> when its lower-cased text holds one of
  implement, refactor, optimize, migrate, deploy; else \<open>simple\<close> when it holds one of fix,
  add, update, change, rename; else \<open>complex\<close> when it is longer than 200; else
  \<open>moderate\<close>. The complex keywords are looked at first, and the result is a function of
  the request alone.
\<close>

theorem analyze_complexity_spec:
  "analyze_complexity request = classifyComplexity_spec request"
  by (simp add: analyze_complexity_def classifyComplexity_spec_def complex_keywords_def
      simple_keywords_def Let_def)

text \<open>
  C3: the request \<open>fix the bug in module.py\<close> is simple, is planned sequentially, and its
  plan is the four debugging tasks.
\<close>

theorem plan_fix_the_bug:
  "analyze_complexity ''fix the bug in module.py'' = Simple
   \<and> select_strategy (analyze_complexity ''fix the bug in module.py'') = Sequential
   \<and> tasks (create_plan ''fix the bug in module.py'')
       = [''Identify the bug location'', ''Analyze root cause'', ''Implement fix'',
          ''Verify fix works'']"
  by code_simp

text \<open>In sequential planning the first keyword found, in the order test, api, bug or
  fix, picks the list.\<close>

lemma sequential_planning_priority:
  "contains (lower r) ''test''
   \<Longrightarrow> sequential_planning r
       = [''Analyze existing test coverage'', ''Write unit tests'', ''Run tests and verify'']"
  "\<not> contains (lower r) ''test'' \<Longrightarrow> contains (lower r) ''api''
   \<Longrightarrow> sequential_planning r
       = [''Design API endpoints'', ''Implement API handlers'', ''Add API documentation'']"
  "\<not> contains (lower r) ''test'' \<Longrightarrow> \<not> contains (lower r) ''api''
   \<Longrightarrow> contains (lower r) ''bug'' \<or> contains (lower r) ''fix''
   \<Longrightarrow> sequential_planning r
       = [''Identify the bug location'', ''Analyze root cause'', ''Implement fix'',
          ''Verify fix works'']"
  by (simp_all add: sequential_planning_def)

section \<open>Properties of the memory\<close>

lemma deque_append_last:
  "deque_append n (drop (length xs - n) xs) x = drop (length (xs @ [x]) - n) (xs @ [x])"
proof (cases "length xs < n")
  case True
  then show ?thesis by (simp add: deque_append_def)
next
  case False
  then have le: "n \<le> length xs" by simp
  show ?thesis
  proof (cases "n = 0")
    case True
    then show ?thesis by (simp add: deque_append_def)
  next
    case False
    with le have "Suc (length xs) - n = Suc (length xs - n)" by simp
    moreover have "tl (drop (length xs - n) xs @ [x]) = drop (Suc (length xs - n)) xs @ [x]"
      using le False by (simp add: drop_Suc tl_drop)
    ultimately show ?thesis using le False by (simp add: deque_append_def Let_def)
  qed
qed

lemma add_interaction_fields:
  "interactions (add_interaction ts r c md m) = interactions m @ [make_interaction (ts, r, c, md)]"
  "short_term (add_interaction ts r c md m)
     = deque_append (maxlen m) (short_term m) (make_interaction (ts, r, c, md))"
  "maxlen (add_interaction ts r c md m) = maxlen m"
  "persistence_path (add_interaction ts r c md m) = persistence_path m"
  by (simp_all add: add_interaction_def make_interaction_def Let_def)

lemma add_interactions_log:
  "interactions (add_interactions xs m) = interactions m @ map make_interaction xs"
  by (induction xs m rule: add_interactions.induct) (simp_all add: add_interaction_fields)

lemma add_interactions_maxlen: "maxlen (add_interactions xs m) = maxlen m"
  by (induction xs m rule: add_interactions.induct) (simp_all add: add_interaction_fields)

lemma add_interactions_window:
  "short_term m = drop (length (interactions m) - maxlen m) (interactions m)
   \<Longrightarrow> short_term (add_interactions xs m)
       = drop (length (interactions (add_interactions xs m)) - maxlen m)
           (interactions (add_interactions xs m))"
proof (induction xs m rule: add_interactions.induct)
  case (1 m)
  then show ?case by simp
next
  case (2 ts r c md rest m)
  let ?m = "add_interaction ts r c md m"
  have "short_term ?m = drop (length (interactions ?m) - maxlen ?m) (interactions ?m)"
    using "2.prems" deque_append_last [of "maxlen m" "interactions m"]
    by (simp add: add_interaction_fields)
  from "2.IH" [OF this] show ?case by (simp add: add_interaction_fields)
qed

lemma new_memory_fresh:
  "new_memory cap None fs
     = \<lparr>short_term = [], maxlen = cap, long_term = [], interactions = [],
        persistence_path = None\<rparr>"
  by (simp add: new_memory_def load_memory_def)

text \<open>
  C8: after capacity + k interactions are added to a fresh store of that capacity, the
  recent context of size capacity is the last capacity interactions in the order they
  were added, the first k being gone from the buffer, and the log holds all of them.
\<close>

theorem recent_buffer_bound:
  assumes "length xs = cap + k"
  shows "get_recent_context (int cap) (add_interactions xs (new_memory cap None fs))
           = drop k (map make_interaction xs)
         \<and> length (get_recent_context (int cap) (add_interactions xs (new_memory cap None fs))) = cap
         \<and> interactions (add_interactions xs (new_memory cap None fs)) = map make_interaction xs"
proof -
  let ?init = "new_memory cap None fs"
  let ?fin = "add_interactions xs ?init"
  have log: "interactions ?fin = map make_interaction xs"
    by (simp add: add_interactions_log new_memory_fresh)
  have "short_term ?init = drop (length (interactions ?init) - maxlen ?init) (interactions ?init)"
    by (simp add: new_memory_fresh)
  from add_interactions_window [OF this, of xs]
  have st: "short_term ?fin = drop k (map make_interaction xs)"
    using assms by (simp add: add_interactions_log new_memory_fresh)
  have "slice_last (int cap) (drop k (map make_interaction xs)) = drop k (map make_interaction xs)"
    using assms by (simp add: slice_last_def)
  with st log assms show ?thesis by (simp add: get_recent_context_def)
qed

theorem recent_buffer_bound_witness:
  "get_recent_context (int 2)
     (add_interactions [(''t1'', ''user'', ''a'', []), (''t2'', ''assistant'', ''b'', []),
        (''t3'', ''user'', ''c'', [])] (new_memory 2 None Map.empty))
   = [make_interaction (''t2'', ''assistant'', ''b'', []), make_interaction (''t3'', ''user'', ''c'', [])]"
proof -
  have "length [(''t1'', ''user'', ''a'', []), (''t2'', ''assistant'', ''b'', []),
        (''t3'', ''user'', ''c'', [] :: (string \<times> pyval) list)] = 2 + 1"
    by simp
  from recent_buffer_bound [OF this, of Map.empty] show ?thesis by simp
qed

lemma error_count_update:
  "\<not> startswith k ''error_'' \<Longrightarrow> error_count (AList.update k v lt) = error_count lt"
  by (simp add: error_count_def update_keys)

lemma error_count_fold:
  "(\<And>x. \<not> startswith (f x) ''error_'')
   \<Longrightarrow> error_count (fold (\<lambda>x. AList.update (f x) (g x)) xs lt) = error_count lt"
  by (induction xs arbitrary: lt) (simp_all add: error_count_update)

lemma error_count_extract_files: "error_count (extract_files i lt) = error_count lt"
  by (simp add: extract_files_def error_count_fold)

lemma error_count_extract_definitions: "error_count (extract_definitions i lt) = error_count lt"
  by (simp add: extract_definitions_def error_count_fold)

lemma str_nat_0: "str_nat 0 = ''0''"
  by (simp add: str_nat.simps)

lemma scenario_content:
  "findall match_path 0 ''see src/app.py for the error'' = [''src/app.py'']"
  "contains ''see src/app.py for the error'' ''/''"
  "\<not> contains ''see src/app.py for the error'' ''def ''"
  "\<not> contains ''see src/app.py for the error'' ''class ''"
  "contains (lower ''see src/app.py for the error'') ''error''"
  by code_simp+

text \<open>
  C9: content that holds \<open>error\<close> or \<open>exception\<close> in any case puts a fact under the key
  \<open>error_k\<close>, k being the number of keys that start with \<open>error_\<close> when the call is made;
  and on a store without such keys, adding \<open>see src/app.py for the error\<close> makes the
  facts \<open>file_src/app.py\<close> and \<open>error_0\<close>.
\<close>

theorem error_fact_key:
  "(contains (lower c) ''error'' \<or> contains (lower c) ''exception''
      \<longrightarrow> map_of (long_term (add_interaction ts r c md m))
            (''error_'' @ str_nat (error_count (long_term m)))
          = Some (ErrorFact ts (take 200 c)))
   \<and> (error_count (long_term m) = 0
      \<longrightarrow> map_of (long_term (add_interaction ts ''user'' ''see src/app.py for the error'' md m))
            ''file_src/app.py''
          = Some (FileFact ts ''see src/app.py for the error'')
        \<and> map_of (long_term (add_interaction ts ''user'' ''see src/app.py for the error'' md m))
            ''error_0''
          = Some (ErrorFact ts ''see src/app.py for the error''))"
proof (intro conjI impI)
  assume "contains (lower c) ''error'' \<or> contains (lower c) ''exception''"
  then show "map_of (long_term (add_interaction ts r c md m))
               (''error_'' @ str_nat (error_count (long_term m)))
             = Some (ErrorFact ts (take 200 c))"
    by (simp add: add_interaction_def Let_def extract_to_long_term_def extract_errors_def
        error_count_extract_files error_count_extract_definitions update_conv')
next
  let ?c = "''see src/app.py for the error''"
  let ?i = "\<lparr>timestamp = ts, role = ''user'', content = ?c, metadata = md\<rparr>"
  assume z: "error_count (long_term m) = 0"
  have files: "extract_files ?i (long_term m)
                 = AList.update ''file_src/app.py'' (FileFact ts ?c) (long_term m)"
    by (simp add: extract_files_def scenario_content)
  have defs: "extract_definitions ?i lt = lt" for lt
    by (simp add: extract_definitions_def scenario_content)
  have errs: "extract_errors ?i lt
                = AList.update (''error_'' @ str_nat (error_count lt)) (ErrorFact ts ?c) lt" for lt
    by (simp add: extract_errors_def scenario_content)
  have cnt: "error_count (AList.update ''file_src/app.py'' (FileFact ts ?c) (long_term m)) = 0"
    using z by (simp add: error_count_update)
  have lt: "long_term (add_interaction ts ''user'' ?c md m)
              = AList.update ''error_0'' (ErrorFact ts ?c)
                  (AList.update ''file_src/app.py'' (FileFact ts ?c) (long_term m))"
    by (simp add: add_interaction_def Let_def extract_to_long_term_def files defs errs cnt
        str_nat_0)
  show "map_of (long_term (add_interaction ts ''user'' ?c md m)) ''file_src/app.py''
          = Some (FileFact ts ?c)"
    by (simp add: lt update_conv')
  show "map_of (long_term (add_interaction ts ''user'' ?c md m)) ''error_0''
          = Some (ErrorFact ts ?c)"
    by (simp add: lt update_conv')
qed

theorem error_fact_key_witness:
  "map_of (long_term (add_interaction ''t'' ''user'' ''see src/app.py for the error'' []
             (new_memory 100 None Map.empty))) ''file_src/app.py''
     = Some (FileFact ''t'' ''see src/app.py for the error'')
   \<and> map_of (long_term (add_interaction ''t'' ''user'' ''see src/app.py for the error'' []
             (new_memory 100 None Map.empty))) ''error_0''
     = Some (ErrorFact ''t'' ''see src/app.py for the error'')"
proof -
  have "error_count (long_term (new_memory 100 None Map.empty)) = 0"
    by (simp add: new_memory_fresh error_count_def)
  with error_fact_key [of "''see src/app.py for the error''" "''t''" "''user''" "[]"
      "new_memory 100 None Map.empty"]
  show ?thesis by (simp add: scenario_content str_nat_0)
qed

text \<open>
  Saving and then loading gives back the log and the facts as they were saved.
\<close>

lemma save_load_roundtrip:
  assumes "persistence_path m = Some p"
  shows "interactions (load_memory m (save_memory ts m fs)) = interactions m"
    and "long_term (load_memory m (save_memory ts m fs)) = long_term m"
  using assms by (simp_all add: load_memory_def save_memory_def)

lemma save_load_buffer:
  assumes "persistence_path m = Some p"
  shows "short_term (load_memory m (save_memory ts m fs))
           = fold (\<lambda>i st. deque_append (maxlen m) st i)
               (slice_last (int (maxlen m)) (interactions m)) (short_term m)"
  using assms by (simp add: load_memory_def save_memory_def)

text \<open>
  C7, on a store of capacity 100 with a path and one interaction: after \<open>save_memory\<close> and
  \<open>load_memory\<close> the log is the saved one, and the recent buffer holds the interaction
  twice, where the last 100 entries of the restored log are that one interaction.
\<close>

theorem save_load_duplicates_buffer:
  "interactions (load_memory
       (add_interaction ''t1'' ''user'' ''hello'' [] (new_memory 100 (Some ''mem.pkl'') Map.empty))
       (save_memory ''t2''
          (add_interaction ''t1'' ''user'' ''hello'' [] (new_memory 100 (Some ''mem.pkl'') Map.empty))
          Map.empty))
     = [make_interaction (''t1'', ''user'', ''hello'', [])]
   \<and> short_term (load_memory
       (add_interaction ''t1'' ''user'' ''hello'' [] (new_memory 100 (Some ''mem.pkl'') Map.empty))
       (save_memory ''t2''
          (add_interaction ''t1'' ''user'' ''hello'' [] (new_memory 100 (Some ''mem.pkl'') Map.empty))
          Map.empty))
     = [make_interaction (''t1'', ''user'', ''hello'', []),
        make_interaction (''t1'', ''user'', ''hello'', [])]"
  by (simp add: load_memory_def save_memory_def new_memory_def add_interaction_def Let_def
      make_interaction_def deque_append_def slice_last_def)

section \<open>Properties of the dispatcher\<close>

lemma routing_examples:
  "contains (lower ''Write a test for X'') ''test''"
  "\<not> contains (lower ''Implement fix'') ''test''"
  "contains (lower ''Implement fix'') ''implement''"
  "\<not> contains (lower ''Analyze root cause'') ''test''"
  "\<not> contains (lower ''Analyze root cause'') ''implement''"
  "\<not> contains (lower ''Analyze root cause'') ''write''"
  "contains (lower ''Analyze root cause'') ''analyze''"
  "\<not> contains (lower ''Verify fix works'') ''test''"
  "\<not> contains (lower ''Verify fix works'') ''implement''"
  "\<not> contains (lower ''Verify fix works'') ''write''"
  "\<not> contains (lower ''Verify fix works'') ''analyze''"
  "contains (lower ''Verify fix works'') ''fix''"
  "\<not> contains (lower ''Identify the bug location'') ''test''"
  "\<not> contains (lower ''Identify the bug location'') ''implement''"
  "\<not> contains (lower ''Identify the bug location'') ''write''"
  "\<not> contains (lower ''Identify the bug location'') ''analyze''"
  "\<not> contains (lower ''Identify the bug location'') ''fix''"
  "\<not> contains (lower ''Identify the bug location'') ''debug''"
  by code_simp+

text \<open>
  C4: a task goes to the first handler whose keyword its lower-cased text holds, in the
  order test, implement or write, analyze, fix or debug, and else to the generic
  handler; \<open>Write a test for X\<close> goes to the test handler.
\<close>

theorem execute_task_routing:
  "(contains (lower t) ''test''
      \<longrightarrow> execute_task E t c w = catch_task t (execute_test_task E t c w))
   \<and> (\<not> contains (lower t) ''test''
        \<and> (contains (lower t) ''implement'' \<or> contains (lower t) ''write'')
      \<longrightarrow> execute_task E t c w = catch_task t (execute_implementation_task E t c w))
   \<and> (\<not> contains (lower t) ''test'' \<and> \<not> contains (lower t) ''implement''
        \<and> \<not> contains (lower t) ''write'' \<and> contains (lower t) ''analyze''
      \<longrightarrow> execute_task E t c w = catch_task t (execute_analysis_task E t c w))
   \<and> (\<not> contains (lower t) ''test'' \<and> \<not> contains (lower t) ''implement''
        \<and> \<not> contains (lower t) ''write'' \<and> \<not> contains (lower t) ''analyze''
        \<and> (contains (lower t) ''fix'' \<or> contains (lower t) ''debug'')
      \<longrightarrow> execute_task E t c w = catch_task t (execute_debug_task E t c w))
   \<and> (\<not> contains (lower t) ''test'' \<and> \<not> contains (lower t) ''implement''
        \<and> \<not> contains (lower t) ''write'' \<and> \<not> contains (lower t) ''analyze''
        \<and> \<not> contains (lower t) ''fix'' \<and> \<not> contains (lower t) ''debug''
      \<longrightarrow> execute_task E t c w = catch_task t (execute_generic_task t c w))
   \<and> execute_task E ''Write a test for X'' c w
       = catch_task ''Write a test for X'' (execute_test_task E ''Write a test for X'' c w)"
  by (simp add: execute_task_def routing_examples)

theorem execute_task_routing_witness:
  "execute_task trace_env ''Write a test for X'' Map.empty []
     = (named_result ''test'', [(''test'', ''Write a test for X'')])
   \<and> execute_task trace_env ''Implement fix'' Map.empty []
     = (named_result ''implementation'', [(''implementation'', ''Implement fix'')])
   \<and> execute_task trace_env ''Analyze root cause'' Map.empty []
     = (named_result ''analysis'', [(''analysis'', ''Analyze root cause'')])
   \<and> execute_task trace_env ''Verify fix works'' Map.empty []
     = (named_result ''debug'', [(''debug'', ''Verify fix works'')])
   \<and> fst (execute_task trace_env ''Identify the bug location'' Map.empty [])
     = fst (catch_task ''Identify the bug location''
         (execute_generic_task ''Identify the bug location'' Map.empty
            ([] :: (string \<times> string) list)))"
  using execute_task_routing [of "''Write a test for X''" trace_env Map.empty "[]"]
    execute_task_routing [of "''Implement fix''" trace_env Map.empty "[]"]
    execute_task_routing [of "''Analyze root cause''" trace_env Map.empty "[]"]
    execute_task_routing [of "''Verify fix works''" trace_env Map.empty "[]"]
    execute_task_routing [of "''Identify the bug location''" trace_env Map.empty "[]"]
  by (simp add: routing_examples catch_task_def trace_env_def)

text \<open>The first tier: an exception of a handler becomes a failed result with the
  message and the task, and the world is as the handler left it.\<close>

lemma catch_task_raise: "catch_task t (Inl e, w') = (failure_result e t, w')"
  by (simp add: catch_task_def)

lemma catch_task_return: "catch_task t (Inr r, w') = (r, w')"
  by (simp add: catch_task_def)

section \<open>Properties of the orchestrator\<close>

lemma fold_synthesize_step:
  "fold synthesize_step rs (parts, changes)
     = (parts @ map summary_text (filter success rs),
        changes @ concat (map changes_of (filter success rs)))"
  by (induction rs arbitrary: parts changes)
    (simp_all add: synthesize_step_def changes_of_def split: option.splits)

text \<open>
  C6, as the code has it: the summary is the newline-joined summaries of the successful
  results in task order, the code changes are the change records of the successful
  results in task order with nothing taken out, \<open>total_tasks\<close> is the number of results
  and \<open>successful_tasks\<close> the number of successful ones.
\<close>

theorem synthesize_response_rule:
  "response_summary (synthesize_response rs)
     = join [newline] (map summary_text (filter success rs))
   \<and> response_code_changes (synthesize_response rs)
     = concat (map changes_of (filter success rs))
   \<and> total_tasks (synthesize_response rs) = length rs
   \<and> successful_tasks (synthesize_response rs) = length (filter success rs)"
  by (simp add: synthesize_response_def fold_synthesize_step)

text \<open>
  C6 as stated fails: the change record of a failed result is not in the response.
\<close>

theorem synthesize_response_counterexample:
  "response_code_changes (synthesize_response [unparsed_result])
     \<noteq> concat (map changes_of [unparsed_result])"
  by (simp add: synthesize_response_def synthesize_step_def changes_of_def unparsed_result_def)

lemma loop_body_completed:
  assumes "loop_body E ex t A = (r, B)"
  shows "\<exists>ts. completed_tasks (state B) = completed_tasks (state A) @ ts
              \<and> (\<forall>result. r = Inr result \<longrightarrow> ts = [t])"
  using assms
  by (auto simp: loop_body_def log_interaction_def Let_def
      split: prod.splits sum.splits if_splits)

lemma task_loop_completed:
  "task_loop E ex p i rs A = (out, A')
   \<Longrightarrow> \<exists>ts. completed_tasks (state A') = completed_tasks (state A) @ ts
            \<and> (\<forall>results. out = Inr results \<longrightarrow> length results = length rs + length ts)"
proof (induction E ex p i rs A arbitrary: out A' rule: task_loop.induct)
  case (1 E ex p i rs A)
  show ?case
  proof (cases "i < length (heap A p)")
    case False
    with "1.prems" have "out = Inr rs" "A' = A"
      by (simp_all add: task_loop.simps [of E ex p i rs A])
    then show ?thesis by simp
  next
    case True
    obtain r B where body: "loop_body E ex (heap A p ! i) A = (r, B)"
      by (cases "loop_body E ex (heap A p ! i) A")
    from loop_body_completed [OF body]
    obtain ts where ts: "completed_tasks (state B) = completed_tasks (state A) @ ts"
      and one: "\<And>result. r = Inr result \<Longrightarrow> ts = [heap A p ! i]"
      by blast
    show ?thesis
    proof (cases r)
      case (Inl e)
      with True body "1.prems" have "out = Inl e" "A' = B"
        by (simp_all add: task_loop.simps [of E ex p i rs A])
      with ts show ?thesis by auto
    next
      case (Inr result)
      with True body "1.prems"
      have rec: "task_loop E ex p (Suc i) (rs @ [result]) B = (out, A')"
        by (simp add: task_loop.simps [of E ex p i rs A])
      from "1.IH" [OF True body [symmetric] Inr rec]
      obtain us where us: "completed_tasks (state A') = completed_tasks (state B) @ us"
        and len: "\<And>results. out = Inr results
                    \<Longrightarrow> length results = length (rs @ [result]) + length us"
        by blast
      from one [OF Inr] ts us
      have "completed_tasks (state A') = completed_tasks (state A) @ (heap A p ! i # us)"
        by simp
      moreover have "\<forall>results. out = Inr results
                       \<longrightarrow> length results = length rs + length (heap A p ! i # us)"
        using len by simp
      ultimately show ?thesis by blast
    qed
  qed
qed

lemma process_request_with_completed:
  "\<exists>new. tasks_completed (fst (process_request_with E planner ex request A))
            = completed_tasks (state A) @ new
        \<and> completed_tasks (state (snd (process_request_with E planner ex request A)))
            = completed_tasks (state A) @ new
        \<and> (\<forall>body done arts.
              fst (process_request_with E planner ex request A) = Succeeded body done arts
              \<longrightarrow> total_tasks body = length new)"
proof (cases "planner request (state_context (state (log_interaction E ''user'' request A)))")
  case (Inl e)
  then show ?thesis
    by (simp add: process_request_with_def Let_def log_interaction_def)
next
  case (Inr plan)
  let ?A1 = "log_interaction E ''user'' request A"
  let ?p = "next_ref ?A1"
  let ?A3 = "?A1\<lparr>heap := (heap ?A1)(?p := tasks plan), next_ref := Suc ?p,
                 state := (state ?A1)\<lparr>pending_tasks := ?p\<rparr>\<rparr>"
  obtain out A4 where loop: "task_loop E ex ?p 0 [] ?A3 = (out, A4)"
    by (cases "task_loop E ex ?p 0 [] ?A3")
  from task_loop_completed [OF loop]
  obtain ts where ts: "completed_tasks (state A4) = completed_tasks (state A) @ ts"
    and len: "\<And>results. out = Inr results \<Longrightarrow> length results = length ts"
    by (auto simp: log_interaction_def)
  show ?thesis
  proof (cases out)
    case (Inl e)
    with Inr loop ts show ?thesis
      by (simp add: process_request_with_def Let_def)
  next
    case out: (Inr results)
    with Inr loop ts len [OF out] show ?thesis
      by (simp add: process_request_with_def Let_def log_interaction_def
          synthesize_response_rule)
  qed
qed

text \<open>
  C10: \<open>process_request\<close> only appends to \<open>completed_tasks\<close>, so the \<open>tasks_completed\<close>
  of its response, a success or a failure, is the list of the session before the call
  followed by the tasks of this request, and the session keeps that list for the next
  call. For a success the number of new tasks is \<open>total_tasks\<close>.
\<close>

theorem completed_tasks_cumulative:
  "\<exists>new. tasks_completed (fst (process_request E request A))
            = completed_tasks (state A) @ new
        \<and> completed_tasks (state (snd (process_request E request A)))
            = completed_tasks (state A) @ new
        \<and> (\<forall>body done arts.
              fst (process_request E request A) = Succeeded body done arts
              \<longrightarrow> total_tasks body = length new)"
  unfolding process_request_def by (rule process_request_with_completed)

text \<open>
  With an executor that never raises the loop never raises either: the task read from
  the list is in the list \<open>pending_tasks\<close> points to, the two being one object, so
  \<open>list.remove\<close> finds it. Hence \<open>process_request\<close> with the agent's own planner and
  executor always returns the dictionary of a success.
\<close>

lemma loop_body_no_raise:
  assumes "ex t (state_context (state A)) (world A) = (Inr r, w')"
    and "t \<in> set (heap A (pending_tasks (state A)))"
  shows "\<exists>B. loop_body E ex t A = (Inr r, B)
             \<and> pending_tasks (state B) = pending_tasks (state A)"
  using assms by (simp add: loop_body_def Let_def log_interaction_def)

lemma task_loop_no_raise:
  "(\<forall>t c w. \<exists>r w'. ex t c w = (Inr r, w')) \<Longrightarrow> pending_tasks (state A) = p
   \<Longrightarrow> \<exists>results B. task_loop E ex p i rs A = (Inr results, B)"
proof (induction E ex p i rs A rule: task_loop.induct)
  case (1 E ex p i rs A)
  show ?case
  proof (cases "i < length (heap A p)")
    case False
    then show ?thesis by (simp add: task_loop.simps [of E ex p i rs A])
  next
    case True
    let ?t = "heap A p ! i"
    from "1.prems"(1) obtain r w'
      where run: "ex ?t (state_context (state A)) (world A) = (Inr r, w')"
      by blast
    from True "1.prems"(2) have mem: "?t \<in> set (heap A (pending_tasks (state A)))"
      by simp
    from loop_body_no_raise [where ex = ex and t = ?t and A = A and E = E, OF run mem]
      "1.prems"(2)
    obtain B where body: "loop_body E ex ?t A = (Inr r, B)"
      and pend: "pending_tasks (state B) = p"
      by auto
    from "1.IH" [OF True body [symmetric] refl "1.prems"(1) pend]
    obtain results C where "task_loop E ex p (Suc i) (rs @ [r]) B = (Inr results, C)"
      by blast
    with True body show ?thesis
      by (simp add: task_loop.simps [of E ex p i rs A])
  qed
qed

lemma process_request_succeeds:
  "\<exists>body done arts. fst (process_request E request A) = Succeeded body done arts"
proof -
  let ?ex = "\<lambda>t c w. case execute_task E t c w of (result, w') \<Rightarrow> (Inr result, w')"
  let ?A1 = "log_interaction E ''user'' request A"
  let ?p = "next_ref ?A1"
  let ?A3 = "?A1\<lparr>heap := (heap ?A1)(?p := tasks (create_plan request)), next_ref := Suc ?p,
                 state := (state ?A1)\<lparr>pending_tasks := ?p\<rparr>\<rparr>"
  have "\<forall>t c w. \<exists>r w'. ?ex t c w = (Inr r, w')"
    by (auto split: prod.splits)
  moreover have "pending_tasks (state ?A3) = ?p"
    by simp
  ultimately obtain results B where "task_loop E ?ex ?p 0 [] ?A3 = (Inr results, B)"
    using task_loop_no_raise [of ?ex ?A3 ?p E 0 "[]"] by blast
  then show ?thesis
    by (simp add: process_request_def process_request_with_def Let_def)
qed

text \<open>The second tier: a planner that raises ends the request with the failure
  dictionary, and the completed tasks of the session are in it unchanged.\<close>

lemma planner_failure:
  "planner request (state_context (state A)) = Inl e
   \<Longrightarrow> fst (process_request_with E planner ex request A) = Failed e (completed_tasks (state A))"
  by (simp add: process_request_with_def Let_def log_interaction_def)

lemma reset_completed: "completed_tasks (state (reset A)) = []"
  by (simp add: reset_def)

text \<open>
  C1, on the request \<open>fix the bug in module.py\<close>: the plan has four tasks, and the run
  dispatches the first and the third only. \<open>pending_tasks\<close> is the list the loop walks,
  so each removal moves the next task under the index the iterator has passed; the
  second and the fourth task stay pending and the response counts two tasks.
\<close>

theorem fix_request_skips_tasks:
  "tasks (create_plan ''fix the bug in module.py'')
     = [''Identify the bug location'', ''Analyze root cause'', ''Implement fix'',
        ''Verify fix works'']
   \<and> tasks_completed (fst fix_request_run) = [''Identify the bug location'', ''Implement fix'']
   \<and> world (snd fix_request_run) = [(''implementation'', ''Implement fix'')]
   \<and> heap (snd fix_request_run) (pending_tasks (state (snd fix_request_run)))
     = [''Analyze root cause'', ''Verify fix works'']"
  by code_simp

text \<open>
  C5, on the request \<open>run the tests\<close> with a test handler that raises: the exception of
  the first task becomes a failed result and the request goes on to succeed, but the
  task dispatched next is the third of the plan; the second is never dispatched.
\<close>

theorem failed_task_next_task_skipped:
  "tasks (create_plan ''run the tests'')
     = [''[Parallel] Analyze existing test coverage'', ''[Parallel] Write unit tests'',
        ''[Parallel] Run tests and verify'']
   \<and> world (snd failing_tests_run)
     = [(''test'', ''[Parallel] Analyze existing test coverage''),
        (''test'', ''[Parallel] Run tests and verify'')]
   \<and> fst failing_tests_run
     = Succeeded
         \<lparr>response_summary = [], response_code_changes = [], total_tasks = 2,
          successful_tasks = 0\<rparr>
         [''[Parallel] Analyze existing test coverage'', ''[Parallel] Run tests and verify'']
         \<lparr>all_files_created = [], all_files_modified = [], all_commands_executed = [],
          all_errors = []\<rparr>"
  by code_simp

lemma second_request_values:
  "completed_tasks (state (snd fix_request_run))
     = [''Identify the bug location'', ''Implement fix'']"
  "fst second_request_run
     = Succeeded
         \<lparr>response_summary = ''Completed: Understand requirements'' @ [newline] @ ''test'',
          response_code_changes = [], total_tasks = 2, successful_tasks = 2\<rparr>
         [''Identify the bug location'', ''Implement fix'', ''Understand requirements'',
          ''Test implementation'']
         \<lparr>all_files_created = [], all_files_modified = [], all_commands_executed = [],
          all_errors = []\<rparr>"
  by code_simp+

theorem completed_tasks_cumulative_witness:
  "\<exists>new. tasks_completed (fst second_request_run)
            = [''Identify the bug location'', ''Implement fix''] @ new
        \<and> length new = 2"
  using completed_tasks_cumulative [of trace_env "''add a feature''" "snd fix_request_run"]
    second_request_values
  unfolding second_request_run_def [symmetric]
  by auto

end
